theory Spec2Isabelle
  imports Main
begin

section \<open>The JavaScript values the router handles\<close>

text \<open>
  The router (routes/cars.js) reads its inputs from \<open>req.params.id\<close>, \<open>req.body\<close> and
  \<open>req.file\<close> and passes them through the language built-ins \<open>isNaN\<close>, \<open>parseInt\<close>,
  \<open>parseFloat\<close>, \<open>!\<close>, \<open>||\<close> and \<open>? :\<close>. Their ECMAScript definitions are written out here.

  A string is a list of characters (code units up to 0xFF). A number is \<open>NaN\<close>, an
  infinity or a finite value, and a finite value is kept as the decimal it denotes,
  \<open>Dec m d\<close> standing for \<open>m / 10 ^ d\<close>: rounding to binary64, overflow to an
  infinity and the sign of zero are not modelled. A body field is absent (\<open>undefined\<close>)
  or holds a scalar: the string of a form field, or a JSON \<open>null\<close>, boolean or number
  (the application module mounts the router behind \<open>express.json()\<close> and
  \<open>express.urlencoded()\<close>). Arrays and nested objects as field values are outside the model.
\<close>

datatype number = NaN | Infinity bool | Dec int nat

datatype jsval = JUndefined | JNull | JBool bool | JNum number | JStr string

fun truthy :: "jsval \<Rightarrow> bool" where
  "truthy JUndefined = False"
| "truthy JNull = False"
| "truthy (JBool b) = b"
| "truthy (JNum NaN) = False"
| "truthy (JNum (Infinity neg)) = True"
| "truthy (JNum (Dec m d)) = (m \<noteq> 0)"
| "truthy (JStr s) = (s \<noteq> [])"

subsection \<open>Characters and digits\<close>

definition StrWhiteSpaceChar :: "char \<Rightarrow> bool" where
  \<comment> \<open>TAB, LF, VT, FF, CR, SP and NBSP: the white space and line terminators below 0x100.\<close>
  "StrWhiteSpaceChar c \<longleftrightarrow>
     c \<in> set [CHR 0x09, CHR 0x0A, CHR 0x0B, CHR 0x0C, CHR 0x0D, CHR 0x20, CHR 0xA0]"

definition digit_value :: "char \<Rightarrow> nat option" where
  \<comment> \<open>The value of a digit or of a letter a-f, A-F used as a digit.\<close>
  "digit_value = map_of
     [(CHR ''0'', 0), (CHR ''1'', 1), (CHR ''2'', 2), (CHR ''3'', 3), (CHR ''4'', 4),
      (CHR ''5'', 5), (CHR ''6'', 6), (CHR ''7'', 7), (CHR ''8'', 8), (CHR ''9'', 9),
      (CHR ''a'', 10), (CHR ''b'', 11), (CHR ''c'', 12), (CHR ''d'', 13), (CHR ''e'', 14),
      (CHR ''f'', 15), (CHR ''A'', 10), (CHR ''B'', 11), (CHR ''C'', 12), (CHR ''D'', 13),
      (CHR ''E'', 14), (CHR ''F'', 15)]"

definition radix_digit :: "nat \<Rightarrow> char \<Rightarrow> bool" where
  "radix_digit R c = (case digit_value c of None \<Rightarrow> False | Some v \<Rightarrow> v < R)"

definition digits_value :: "nat \<Rightarrow> string \<Rightarrow> nat" where
  \<comment> \<open>The number a run of radix-R digits denotes, most significant digit first.\<close>
  "digits_value R Z = foldl (\<lambda>acc c. acc * R + the (digit_value c)) 0 Z"

definition digit_char :: "nat \<Rightarrow> char" where
  "digit_char n = ''0123456789'' ! n"

fun digits :: "nat \<Rightarrow> string" where
  "digits n = (if n < 10 then [digit_char n] else digits (n div 10) @ [digit_char (n mod 10)])"

declare digits.simps [simp del]

definition decimal :: "int \<Rightarrow> string" where
  \<comment> \<open>The decimal numeral of an integer, as it stands in a JSON response and in a URL.\<close>
  "decimal i = (if i < 0 then CHR ''-'' # digits (nat (- i)) else digits (nat i))"

subsection \<open>parseInt\<close>

fun sign_prefix :: "string \<Rightarrow> bool \<times> string" where
  \<comment> \<open>One leading + or - is removed; the flag says that it was a minus.\<close>
  "sign_prefix [] = (False, [])"
| "sign_prefix (c # cs) =
     (if c = CHR ''-'' then (True, cs) else if c = CHR ''+'' then (False, cs)
      else (False, c # cs))"

fun radix_prefix :: "string \<Rightarrow> nat \<times> string" where
  \<comment> \<open>With the radix left out, a prefix 0x or 0X is removed and selects radix 16.\<close>
  "radix_prefix (a # b # cs) =
     (if a = CHR ''0'' \<and> (b = CHR ''x'' \<or> b = CHR ''X'') then (16, cs)
      else (10, a # b # cs))"
| "radix_prefix cs = (10, cs)"

definition signed :: "bool \<Rightarrow> nat \<Rightarrow> int" where
  "signed neg n = (if neg then - int n else int n)"

definition parseInt_digits :: "bool \<Rightarrow> nat \<Rightarrow> string \<Rightarrow> number" where
  \<comment> \<open>The longest run of radix-R digits is read; NaN when there is none.\<close>
  "parseInt_digits neg R S =
     (case takeWhile (radix_digit R) S of
        [] \<Rightarrow> NaN
      | z # zs \<Rightarrow> Dec (signed neg (digits_value R (z # zs))) 0)"

definition parseInt_str :: "string \<Rightarrow> number" where
  \<comment> \<open>\<open>parseInt(string)\<close>: leading white space is dropped, then the sign, then the
      radix prefix; what follows the digits is ignored.\<close>
  "parseInt_str inputString =
     (case sign_prefix (dropWhile StrWhiteSpaceChar inputString) of
        (neg, S) \<Rightarrow> (case radix_prefix S of (R, Z) \<Rightarrow> parseInt_digits neg R Z))"

subsection \<open>Decimal literals, parseFloat and isNaN\<close>

fun normal :: "int \<Rightarrow> nat \<Rightarrow> number" where
  \<comment> \<open>\<open>m / 10 ^ d\<close> with the trailing zeros of the fraction removed.\<close>
  "normal m d = (if d = 0 \<or> m mod 10 \<noteq> 0 then Dec m d else normal (m div 10) (d - 1))"

declare normal.simps [simp del]

definition scaled :: "int \<Rightarrow> int \<Rightarrow> number" where
  \<comment> \<open>\<open>m * 10 ^ e\<close>\<close>
  "scaled m e = (if 0 \<le> e then Dec (m * 10 ^ nat e) 0 else normal m (nat (- e)))"

definition exponent_digits :: "string \<Rightarrow> bool \<times> string \<Rightarrow> int \<times> string" where
  \<comment> \<open>After e or E: a sign and at least one digit make an exponent; otherwise the
      literal ends before the e and the whole of \<open>s\<close> is left over.\<close>
  "exponent_digits s su =
     (case su of (neg, u) \<Rightarrow>
        (case takeWhile (radix_digit 10) u of
           [] \<Rightarrow> (0, s)
         | z # zs \<Rightarrow> (signed neg (digits_value 10 (z # zs)), dropWhile (radix_digit 10) u)))"

fun ExponentPart :: "string \<Rightarrow> int \<times> string" where
  \<comment> \<open>An optional exponent at the head of the string: its value and the rest.\<close>
  "ExponentPart [] = (0, [])"
| "ExponentPart (c # cs) =
     (if c = CHR ''e'' \<or> c = CHR ''E'' then exponent_digits (c # cs) (sign_prefix cs)
      else (0, c # cs))"

fun fraction :: "string \<Rightarrow> string \<times> string" where
  \<comment> \<open>After the integer digits: a point and the digits that follow it, and the rest.\<close>
  "fraction [] = ([], [])"
| "fraction (c # cs) =
     (if c = CHR ''.'' then (takeWhile (radix_digit 10) cs, dropWhile (radix_digit 10) cs)
      else ([], c # cs))"

definition mantissa ::
  "bool \<Rightarrow> string \<Rightarrow> string \<times> string \<Rightarrow> (number \<times> string) option" where
  \<comment> \<open>Integer digits \<open>ip\<close>, fraction digits \<open>fp\<close>: one of them must be there.\<close>
  "mantissa neg ip fr =
     (case fr of (fp, r2) \<Rightarrow>
        if ip = [] \<and> fp = [] then None
        else (case ExponentPart r2 of (ex, r3) \<Rightarrow>
                Some (scaled (signed neg (digits_value 10 (ip @ fp))) (ex - int (length fp)),
                      r3)))"

definition StrUnsignedDecimalLiteral :: "bool \<Rightarrow> string \<Rightarrow> (number \<times> string) option" where
  "StrUnsignedDecimalLiteral neg s =
     (if take 8 s = ''Infinity'' then Some (Infinity neg, drop 8 s)
      else mantissa neg (takeWhile (radix_digit 10) s)
             (fraction (dropWhile (radix_digit 10) s)))"

definition StrDecimalLiteral :: "string \<Rightarrow> (number \<times> string) option" where
  \<comment> \<open>The longest prefix that is a StrDecimalLiteral: its value and the rest of the
      string, or None when no prefix is one.\<close>
  "StrDecimalLiteral s = (case sign_prefix s of (neg, u) \<Rightarrow> StrUnsignedDecimalLiteral neg u)"

definition parseFloat_str :: "string \<Rightarrow> number" where
  \<comment> \<open>\<open>parseFloat(string)\<close>: leading white space is dropped and the longest decimal
      literal is read; what follows it is ignored.\<close>
  "parseFloat_str inputString =
     (case StrDecimalLiteral (dropWhile StrWhiteSpaceChar inputString) of
        None \<Rightarrow> NaN
      | Some (v, rest) \<Rightarrow> v)"

fun NonDecimalIntegerLiteral :: "string \<Rightarrow> bool" where
  \<comment> \<open>0b, 0o or 0x (either case) followed by at least one digit of that radix and nothing else.\<close>
  "NonDecimalIntegerLiteral (a # b # d # ds) =
     (a = CHR ''0'' \<and>
      ((b = CHR ''b'' \<or> b = CHR ''B'') \<and> list_all (radix_digit 2) (d # ds) \<or>
       (b = CHR ''o'' \<or> b = CHR ''O'') \<and> list_all (radix_digit 8) (d # ds) \<or>
       (b = CHR ''x'' \<or> b = CHR ''X'') \<and> list_all (radix_digit 16) (d # ds)))"
| "NonDecimalIntegerLiteral s = False"

definition TrimString :: "string \<Rightarrow> string" where
  \<comment> \<open>White space removed at both ends.\<close>
  "TrimString s = rev (dropWhile StrWhiteSpaceChar (rev (dropWhile StrWhiteSpaceChar s)))"

definition StrNumericLiteral :: "string \<Rightarrow> bool" where
  "StrNumericLiteral t =
     (t = [] \<or> NonDecimalIntegerLiteral t \<or>
      (case StrDecimalLiteral t of None \<Rightarrow> False | Some (v, rest) \<Rightarrow> rest = []))"

definition StringNumericLiteral :: "string \<Rightarrow> bool" where
  \<comment> \<open>The strings that \<open>Number(s)\<close> converts to a number other than NaN: white space
      around nothing, around a decimal literal or around a non-decimal integer literal.\<close>
  "StringNumericLiteral s = StrNumericLiteral (TrimString s)"

fun isNaN :: "jsval \<Rightarrow> bool" where
  \<comment> \<open>\<open>isNaN(v)\<close>: whether \<open>Number(v)\<close> is NaN.\<close>
  "isNaN JUndefined = True"
| "isNaN JNull = False"
| "isNaN (JBool b) = False"
| "isNaN (JNum n) = (n = NaN)"
| "isNaN (JStr s) = (\<not> StringNumericLiteral s)"

subsection \<open>ToString\<close>

definition exponent_notation :: "string \<Rightarrow> int \<Rightarrow> string" where
  \<comment> \<open>Digits \<open>s\<close> with the point after the first one, times ten to the \<open>e\<close>.\<close>
  "exponent_notation s e =
     (if length s = 1 then s else take 1 s @ ''.'' @ drop 1 s) @ ''e'' @
     (if e < 0 then ''-'' else ''+'') @ digits (nat \<bar>e\<bar>)"

definition layout :: "string \<Rightarrow> int \<Rightarrow> string" where
  \<comment> \<open>Number::toString in radix 10 on the digits \<open>s\<close> of the value (no trailing zeros,
      \<open>k\<close> of them) with the decimal point after \<open>n\<close> digits: plain digits for
      \<open>k \<le> n \<le> 21\<close>, a decimal fraction for \<open>-6 < n \<le> 21\<close>, exponent notation otherwise.\<close>
  "layout s n =
     (if int (length s) \<le> n \<and> n \<le> 21 then s @ replicate (nat (n - int (length s))) CHR ''0''
      else if 0 < n \<and> n \<le> 21 then take (nat n) s @ ''.'' @ drop (nat n) s
      else if - 6 < n \<and> n \<le> 0 then ''0.'' @ replicate (nat (- n)) CHR ''0'' @ s
      else exponent_notation s (n - 1))"

definition significant :: "string \<Rightarrow> string" where
  "significant D = rev (dropWhile (\<lambda>c. c = CHR ''0'') (rev D))"

definition unsigned_toString :: "string \<Rightarrow> nat \<Rightarrow> string" where
  \<comment> \<open>The value whose digits are \<open>D\<close>, divided by \<open>10 ^ d\<close>.\<close>
  "unsigned_toString D d = layout (significant D) (int (length D) - int d)"

fun Number_toString :: "number \<Rightarrow> string" where
  "Number_toString NaN = ''NaN''"
| "Number_toString (Infinity neg) = (if neg then ''-Infinity'' else ''Infinity'')"
| "Number_toString (Dec m d) =
     (if m = 0 then ''0''
      else (if m < 0 then ''-'' else []) @ unsigned_toString (digits (nat \<bar>m\<bar>)) d)"

fun ToString :: "jsval \<Rightarrow> string" where
  "ToString JUndefined = ''undefined''"
| "ToString JNull = ''null''"
| "ToString (JBool b) = (if b then ''true'' else ''false'')"
| "ToString (JNum n) = Number_toString n"
| "ToString (JStr s) = s"

definition parseInt :: "jsval \<Rightarrow> number" where
  "parseInt v = parseInt_str (ToString v)"

definition parseFloat :: "jsval \<Rightarrow> number" where
  "parseFloat v = parseFloat_str (ToString v)"

section \<open>The Record Store and the Image Store\<close>

text \<open>
  The router reaches the Record Store through the Prisma client (\<open>prisma.car\<close>) and the
  Image Store through \<open>fs.unlink\<close>. Neither the Prisma schema nor the two libraries are
  among the sources of the router, so this section follows the specification: the Car
  entity of its data model, and the operations of its Record Store and Image Store.
  The store checks what it is given (a text field must be a string, year an integer,
  price a finite number) and throws otherwise; the range of its integer type, the
  connection to the database and concurrent requests are not modelled.
\<close>

record Car =
  \<comment> \<open>Modelled from the spec: the Car entity of the data model (the Prisma schema is
      missing): id, year integer, price a float, imageName a file name or null.\<close>
  car_id :: int
  name :: string
  brand :: string
  model :: string
  year :: int
  price :: number
  description :: string
  imageName :: "string option"

record data =
  \<comment> \<open>The object literal a handler passes as \<open>data\<close> to \<open>prisma.car.create\<close> and
      \<open>prisma.car.update\<close>: what the handler computed, not yet checked by the store.\<close>
  data_name :: jsval
  data_brand :: jsval
  data_model :: jsval
  data_year :: number
  data_description :: jsval
  data_price :: number
  data_imageName :: "string option"

datatype error = PrismaValidationError | PrismaRecordNotFound | ReferenceError

datatype call =
  FindMany | FindUnique number | Create data | Update number data | Delete number
| Unlink string

record world =
  cars :: "Car list"  \<comment> \<open>the rows of the Record Store\<close>
  images :: "string list"  \<comment> \<open>the names of the files in the Image Store directory\<close>
  unlinks :: "(string \<times> string) list"
    \<comment> \<open>\<open>fs.unlink\<close> calls that were started and whose callback has not run yet: the
        file, and the message the callback logs when the unlink fails\<close>
  console :: "string list"  \<comment> \<open>the lines written by \<open>console.error\<close>\<close>
  calls :: "call list"  \<comment> \<open>the store and file system calls made so far, in order\<close>

definition integer_of :: "number \<Rightarrow> int option" where
  \<comment> \<open>The integer a number is, when it is one.\<close>
  "integer_of x =
     (case x of Dec m d \<Rightarrow> if m mod 10 ^ d = 0 then Some (m div 10 ^ d) else None
      | _ \<Rightarrow> None)"

definition is_finite :: "number \<Rightarrow> bool" where
  "is_finite x = (case x of Dec m d \<Rightarrow> True | _ \<Rightarrow> False)"

definition string_of :: "jsval \<Rightarrow> string option" where
  "string_of v = (case v of JStr s \<Rightarrow> Some s | _ \<Rightarrow> None)"

definition row_of :: "int \<Rightarrow> data \<Rightarrow> Car option" where
  \<comment> \<open>Modelled from the spec: the Record Store takes fields that are "present and
      well-typed"; the row with id \<open>i\<close> that \<open>d\<close> describes, or None when a text
      field is not a string, year is not an integer or price is not a finite number.\<close>
  "row_of i d =
     (case (string_of (data_name d), string_of (data_brand d), string_of (data_model d),
            integer_of (data_year d), string_of (data_description d)) of
        (Some n, Some b, Some m, Some y, Some ds) \<Rightarrow>
          if is_finite (data_price d)
          then Some \<lparr>car_id = i, name = n, brand = b, model = m, year = y,
                     price = data_price d, description = ds,
                     imageName = data_imageName d\<rparr>
          else None
      | _ \<Rightarrow> None)"

definition new_id :: "Car list \<Rightarrow> int" where
  \<comment> \<open>Modelled from the spec: "id: integer, unique, generated by the store on
      creation"; here one more than the largest id in the table (1 in an empty table).\<close>
  "new_id cs = 1 + foldr max (map car_id cs) 0"

definition has_id :: "int \<Rightarrow> Car \<Rightarrow> bool" where
  "has_id i c = (car_id c = i)"

definition prisma_findMany :: "world \<Rightarrow> Car list \<times> world" where
  \<comment> \<open>Modelled from the spec: listAll().\<close>
  "prisma_findMany w = (cars w, w\<lparr>calls := calls w @ [FindMany]\<rparr>)"

definition prisma_findUnique :: "number \<Rightarrow> world \<Rightarrow> (error + Car option) \<times> world" where
  \<comment> \<open>Modelled from the spec: getById(id: integer), the Car with that id or the
      not-found signal (null); a key that is not an integer is an error of the store.\<close>
  "prisma_findUnique k w =
     (case integer_of k of
        None \<Rightarrow> Inl PrismaValidationError
      | Some i \<Rightarrow> Inr (find (has_id i) (cars w)),
      w\<lparr>calls := calls w @ [FindUnique k]\<rparr>)"

definition prisma_create :: "data \<Rightarrow> world \<Rightarrow> (error + Car) \<times> world" where
  \<comment> \<open>Modelled from the spec: create(fields) persists a new Car and returns it with
      its assigned id.\<close>
  "prisma_create d w =
     (case row_of (new_id (cars w)) d of
        None \<Rightarrow> (Inl PrismaValidationError, w\<lparr>calls := calls w @ [Create d]\<rparr>)
      | Some c \<Rightarrow> (Inr c, w\<lparr>cars := cars w @ [c], calls := calls w @ [Create d]\<rparr>))"

definition prisma_update :: "number \<Rightarrow> data \<Rightarrow> world \<Rightarrow> (error + Car) \<times> world" where
  \<comment> \<open>Modelled from the spec: the store side of update(id, fields), which replaces
      the row and returns it; the id is immutable.\<close>
  "prisma_update k d w =
     (case integer_of k of
        None \<Rightarrow> (Inl PrismaValidationError, w\<lparr>calls := calls w @ [Update k d]\<rparr>)
      | Some i \<Rightarrow>
          (case row_of i d of
             None \<Rightarrow> (Inl PrismaValidationError, w\<lparr>calls := calls w @ [Update k d]\<rparr>)
           | Some c \<Rightarrow>
               if list_ex (has_id i) (cars w)
               then (Inr c, w\<lparr>cars := map (\<lambda>r. if has_id i r then c else r) (cars w),
                               calls := calls w @ [Update k d]\<rparr>)
               else (Inl PrismaRecordNotFound, w\<lparr>calls := calls w @ [Update k d]\<rparr>)))"

definition prisma_delete :: "number \<Rightarrow> world \<Rightarrow> (error + Car) \<times> world" where
  \<comment> \<open>Modelled from the spec: the store side of delete(id), which removes the row
      permanently.\<close>
  "prisma_delete k w =
     (case integer_of k of
        None \<Rightarrow> (Inl PrismaValidationError, w\<lparr>calls := calls w @ [Delete k]\<rparr>)
      | Some i \<Rightarrow>
          (case find (has_id i) (cars w) of
             None \<Rightarrow> (Inl PrismaRecordNotFound, w\<lparr>calls := calls w @ [Delete k]\<rparr>)
           | Some c \<Rightarrow>
               (Inr c, w\<lparr>cars := filter (\<lambda>r. \<not> has_id i r) (cars w),
                          calls := calls w @ [Delete k]\<rparr>)))"

definition fs_unlink :: "string \<Rightarrow> string \<Rightarrow> world \<Rightarrow> world" where
  \<comment> \<open>\<open>fs.unlink(path, callback)\<close> starts the unlink of the file \<open>n\<close> of the Image Store
      directory and returns at once; the callback runs later (see \<open>settle\<close>).\<close>
  "fs_unlink n msg w = w\<lparr>unlinks := unlinks w @ [(n, msg)], calls := calls w @ [Unlink n]\<rparr>"

fun run_unlink :: "(string \<Rightarrow> bool) \<Rightarrow> string \<times> string \<Rightarrow> world \<Rightarrow> world" where
  \<comment> \<open>Modelled from the spec: the Image Store's delete(filename), a best-effort unlink.
      The unlink of \<open>n\<close> fails when the file is not there or when the file system
      refuses it (\<open>refused n\<close>); the callback \<open>(err) => { if (err) console.error(msg, err) }\<close>
      of the router then logs, and does nothing else.\<close>
  "run_unlink refused (n, msg) w =
     (if n \<in> set (images w) \<and> \<not> refused n then w\<lparr>images := removeAll n (images w)\<rparr>
      else w\<lparr>console := console w @ [msg]\<rparr>)"

definition settle :: "(string \<Rightarrow> bool) \<Rightarrow> world \<Rightarrow> world" where
  \<comment> \<open>The started unlinks complete, in the order they were started.\<close>
  "settle refused w = fold (run_unlink refused) (unlinks w) (w\<lparr>unlinks := []\<rparr>)"

section \<open>The Car Resource Router (routes/cars.js)\<close>

text \<open>
  A handler takes what Express and multer hand it: the path parameter \<open>req.params.id\<close>
  (a string), the parsed body \<open>req.body\<close> (a field that is missing reads as
  \<open>undefined\<close>) and \<open>req.file\<close>, of which only \<open>filename\<close> is read (None when no image
  was uploaded). It returns what became of the request, a response that was sent or
  an error thrown out of the async handler, and the state it leaves.

  The two handlers that remove an image file build its path from \<open>__dirname\<close>, which
  the router does not declare. The router is an ES module (it is written with
  \<open>import\<close> and \<open>export default\<close>), and an ES module has no binding of that name:
  evaluating the reference throws a ReferenceError. The binding is a parameter of
  the two handlers: None as the module is written, \<open>Some dir\<close> where a CommonJS
  wrapper or a transpiler binds it to the directory of the module.
\<close>

type_synonym body = "string \<rightharpoonup> jsval"

definition field :: "body \<Rightarrow> string \<Rightarrow> jsval" where
  "field b k = (case b k of None \<Rightarrow> JUndefined | Some v \<Rightarrow> v)"

datatype response =
  Json Car  \<comment> \<open>\<open>res.json(car)\<close>, status 200\<close>
| JsonArray "Car list"  \<comment> \<open>\<open>res.json(cars)\<close>, status 200\<close>
| Text nat string  \<comment> \<open>\<open>res.status(n).send(text)\<close>; \<open>res.send(text)\<close> has status 200\<close>

datatype outcome = Sent response | Thrown error

definition get_all :: "world \<Rightarrow> outcome \<times> world" where
  "get_all w = (case prisma_findMany w of (cs, w') \<Rightarrow> (Sent (JsonArray cs), w'))"

definition get_read :: "string \<Rightarrow> world \<Rightarrow> outcome \<times> world" where
  "get_read id' w =
     (if isNaN (JStr id') then (Sent (Text 400 ''Invalid car id.''), w)
      else
        (case prisma_findUnique (parseInt (JStr id')) w of
           (Inl e, w') \<Rightarrow> (Thrown e, w')
         | (Inr None, w') \<Rightarrow> (Sent (Text 404 ''Car not found.''), w')
         | (Inr (Some car), w') \<Rightarrow> (Sent (Json car), w')))"

definition create_data :: "body \<Rightarrow> string option \<Rightarrow> data" where
  \<comment> \<open>The \<open>data\<close> of \<open>prisma.car.create\<close> (lines 71-79).\<close>
  "create_data b file =
     (let name = field b ''name''; brand = field b ''brand''; model = field b ''model'';
          year = field b ''year''; price = field b ''price'';
          description = field b ''description''
      in \<lparr>data_name = name, data_brand = brand, data_model = model,
          data_year = parseInt year,
          data_description = (if truthy description then description else JStr []),
          data_price = parseFloat price,
          data_imageName = file\<rparr>)"

definition post_create :: "body \<Rightarrow> string option \<Rightarrow> world \<Rightarrow> outcome \<times> world" where
  "post_create b file w =
     (let name = field b ''name''; brand = field b ''brand''; model = field b ''model'';
          year = field b ''year''; price = field b ''price''
      in if \<not> truthy name \<or> \<not> truthy brand \<or> \<not> truthy model \<or> \<not> truthy year \<or>
            \<not> truthy price
         then (Sent (Text 400 ''Required fields must have a value.''), w)
         else
           (case prisma_create (create_data b file) w of
              (Inl e, w') \<Rightarrow> (Thrown e, w')
            | (Inr car, w') \<Rightarrow> (Sent (Json car), w')))"

definition updatedData :: "body \<Rightarrow> string option \<Rightarrow> Car \<Rightarrow> data" where
  \<comment> \<open>"Prepare updated data, keeping existing values if not provided" (lines 105-113).\<close>
  "updatedData b file car =
     (let name = field b ''name''; brand = field b ''brand''; model = field b ''model'';
          year = field b ''year''; price = field b ''price'';
          description = field b ''description''
      in \<lparr>data_name = (if truthy name then name else JStr (Car.name car)),
          data_brand = (if truthy brand then brand else JStr (Car.brand car)),
          data_model = (if truthy model then model else JStr (Car.model car)),
          data_year = (if truthy year then parseInt year else Dec (Car.year car) 0),
          data_description =
            (if truthy description then description else JStr (Car.description car)),
          data_price = (if truthy price then parseFloat price else Car.price car),
          data_imageName = (case file of Some f \<Rightarrow> Some f | None \<Rightarrow> imageName car)\<rparr>)"

definition image_path :: "string option \<Rightarrow> string \<Rightarrow> error + string" where
  \<comment> \<open>\<open>path.join(__dirname, '..', 'public', 'images', n)\<close>: the path of the file \<open>n\<close>
      of the Image Store directory (joined, not normalised: the handlers only pass it
      on), or the ReferenceError of an unbound \<open>__dirname\<close>.\<close>
  "image_path dirname n =
     (case dirname of
        None \<Rightarrow> Inl ReferenceError
      | Some dir \<Rightarrow> Inr (dir @ ''/../public/images/'' @ n))"

definition unlink_old_image ::
  "string option \<Rightarrow> string option \<Rightarrow> Car \<Rightarrow> world \<Rightarrow> error + world" where
  \<comment> \<open>"If a new image is uploaded, delete the old image file" (lines 116-121):
      \<open>req.file && car.imageName\<close> holds for an upload and a name that is neither null
      nor the empty string.\<close>
  "unlink_old_image dirname file car w =
     (case imageName car of
        None \<Rightarrow> Inr w
      | Some n \<Rightarrow>
          if file \<noteq> None \<and> n \<noteq> [] then
            (case image_path dirname n of
               Inl e \<Rightarrow> Inl e
             | Inr oldImagePath \<Rightarrow> Inr (fs_unlink n ''Failed to delete old image:'' w))
          else Inr w)"

definition put_update ::
  "string option \<Rightarrow> string \<Rightarrow> body \<Rightarrow> string option \<Rightarrow> world \<Rightarrow> outcome \<times> world" where
  "put_update dirname id' b file w =
     (if isNaN (JStr id') then (Sent (Text 400 ''Invalid car id.''), w)
      else
        (case prisma_findUnique (parseInt (JStr id')) w of
           (Inl e, w1) \<Rightarrow> (Thrown e, w1)
         | (Inr None, w1) \<Rightarrow> (Sent (Text 404 ''Car not found.''), w1)
         | (Inr (Some car), w1) \<Rightarrow>
             (case unlink_old_image dirname file car w1 of
                Inl e \<Rightarrow> (Thrown e, w1)
              | Inr w2 \<Rightarrow>
                  (case prisma_update (parseInt (JStr id')) (updatedData b file car) w2 of
                     (Inl e, w3) \<Rightarrow> (Thrown e, w3)
                   | (Inr updatedCar, w3) \<Rightarrow> (Sent (Json updatedCar), w3)))))"

definition unlink_image :: "string option \<Rightarrow> Car \<Rightarrow> world \<Rightarrow> error + world" where
  \<comment> \<open>"if the car has an associated image, delete the image file" (lines 156-161).\<close>
  "unlink_image dirname car w =
     (case imageName car of
        None \<Rightarrow> Inr w
      | Some n \<Rightarrow>
          if n \<noteq> [] then
            (case image_path dirname n of
               Inl e \<Rightarrow> Inl e
             | Inr imagePath \<Rightarrow> Inr (fs_unlink n ''Failed to delete image:'' w))
          else Inr w)"

definition delete_delete :: "string option \<Rightarrow> string \<Rightarrow> world \<Rightarrow> outcome \<times> world" where
  "delete_delete dirname id' w =
     (if isNaN (JStr id') then (Sent (Text 400 ''Invalid car id.''), w)
      else
        (case prisma_findUnique (parseInt (JStr id')) w of
           (Inl e, w1) \<Rightarrow> (Thrown e, w1)
         | (Inr None, w1) \<Rightarrow> (Sent (Text 404 ''Car not found.''), w1)
         | (Inr (Some car), w1) \<Rightarrow>
             (case prisma_delete (parseInt (JStr id')) w1 of
                (Inl e, w2) \<Rightarrow> (Thrown e, w2)
              | (Inr deleted, w2) \<Rightarrow>
                  (case unlink_image dirname car w2 of
                     Inl e \<Rightarrow> (Thrown e, w2)
                   | Inr w3 \<Rightarrow> (Sent (Text 200 ''Car deleted successfully.''), w3)))))"

section \<open>The upload handler\<close>

text \<open>
  multer stores an uploaded image under a generated name before the route handler runs;
  the handler sees that name as \<open>req.file.filename\<close>.
\<close>

definition last_segment :: "string \<Rightarrow> string" where
  \<comment> \<open>\<open>originalname.split('.').pop()\<close>: what follows the last point, or the whole
      name when it has no point.\<close>
  "last_segment s = rev (takeWhile (\<lambda>c. c \<noteq> CHR ''.'') (rev s))"

definition uniqueFilename :: "nat \<Rightarrow> nat \<Rightarrow> string \<Rightarrow> string" where
  \<comment> \<open>The \<open>filename\<close> function of the multer storage (lines 16-20), with \<open>now\<close> for
      \<open>Date.now()\<close> and \<open>r\<close> for \<open>Math.round(Math.random() * 1000)\<close>.\<close>
  "uniqueFilename now r originalname =
     (let ext = last_segment originalname
      in Number_toString (Dec (int now) 0) @ ''-'' @ Number_toString (Dec (int r) 0) @
         ''.'' @ ext)"

definition image_names_ok :: "world \<Rightarrow> bool" where
  \<comment> \<open>No record names the empty string as its image.\<close>
  "image_names_ok w \<longleftrightarrow> list_all (\<lambda>c. imageName c \<noteq> Some []) (cars w)"

section \<open>The state after an unlink was started\<close>

definition old_image_unlinking :: "string option \<Rightarrow> Car \<Rightarrow> world \<Rightarrow> world" where
  \<comment> \<open>The state PUT /update/:id hands to the store's update when no error was thrown:
      the unlink of the old image is pending when there was one to start.\<close>
  "old_image_unlinking file car w =
     (case imageName car of
        None \<Rightarrow> w
      | Some n \<Rightarrow>
          if file \<noteq> None \<and> n \<noteq> [] then fs_unlink n ''Failed to delete old image:'' w
          else w)"

definition image_unlinking :: "Car \<Rightarrow> world \<Rightarrow> world" where
  \<comment> \<open>The state DELETE /delete/:id leaves when no error was thrown.\<close>
  "image_unlinking car w =
     (case imageName car of
        None \<Rightarrow> w
      | Some n \<Rightarrow> if n \<noteq> [] then fs_unlink n ''Failed to delete image:'' w else w)"

section \<open>The spec's base-10 integers\<close>



section \<open>An example state\<close>

definition tesla :: Car where
  "tesla = \<lparr>car_id = 1, name = ''Model S'', brand = ''Tesla'', model = ''S'', year = 2023,
     price = Dec 7999999 2, description = [], imageName = Some ''17-42.png''\<rparr>"

definition garage :: world where
  "garage = \<lparr>cars = [tesla], images = [''17-42.png''], unlinks = [], console = [],
     calls = []\<rparr>"

definition model3 :: body where
  "model3 = [''name'' \<mapsto> JStr ''Model 3'', ''brand'' \<mapsto> JStr ''Tesla'',
     ''model'' \<mapsto> JStr ''3'', ''year'' \<mapsto> JStr ''2024'', ''price'' \<mapsto> JStr ''42990.5'']"

section \<open>Evaluation\<close>

lemmas js_defs =
  StrWhiteSpaceChar_def digit_value_def radix_digit_def digits_value_def digit_char_def
  digits.simps decimal_def signed_def parseInt_digits_def parseInt_str_def normal.simps
  scaled_def exponent_digits_def mantissa_def StrUnsignedDecimalLiteral_def
  StrDecimalLiteral_def parseFloat_str_def TrimString_def StrNumericLiteral_def
  StringNumericLiteral_def exponent_notation_def layout_def significant_def
  unsigned_toString_def parseInt_def parseFloat_def

lemmas store_defs =
  integer_of_def is_finite_def string_of_def row_of_def new_id_def has_id_def
  prisma_findMany_def prisma_findUnique_def prisma_create_def prisma_update_def
  prisma_delete_def fs_unlink_def settle_def

lemmas router_defs =
  field_def get_all_def get_read_def create_data_def post_create_def updatedData_def
  image_path_def unlink_old_image_def put_update_def unlink_image_def delete_delete_def

section \<open>Decimal numerals\<close>
























section \<open>Facts about the store\<close>

lemma integer_of_Dec0 [simp]: "integer_of (Dec n 0) = Some n"
  by (simp add: integer_of_def)

lemma integer_of_NaN [simp]: "integer_of NaN = None"
  by (simp add: integer_of_def)

lemma is_finite_simps [simp]:
  "is_finite (Dec m d)" "\<not> is_finite NaN" "\<not> is_finite (Infinity neg)"
  by (simp_all add: is_finite_def)

lemma find_has_id: "find (has_id n) cs = Some c \<Longrightarrow> car_id c = n \<and> c \<in> set cs"
  by (induction cs) (auto simp: has_id_def split: if_splits)

lemma find_list_ex: "find P xs = Some x \<Longrightarrow> list_ex P xs"
  by (induction xs) (auto split: if_splits)

lemma find_replaced:
  "find (has_id n) cs = Some c \<Longrightarrow> car_id c' = n \<Longrightarrow>
   find (has_id n) (map (\<lambda>r. if has_id n r then c' else r) cs) = Some c'"
  by (induction cs) (auto simp: has_id_def split: if_splits)

lemma find_removed: "find (has_id n) (filter (\<lambda>r. \<not> has_id n r) cs) = None"
  by (induction cs) auto







lemma findUnique_integer:
  "prisma_findUnique (Dec n 0) w =
     (Inr (find (has_id n) (cars w)), w\<lparr>calls := calls w @ [FindUnique (Dec n 0)]\<rparr>)"
  by (simp add: prisma_findUnique_def)

section \<open>The handlers on a valid id\<close>


lemma unlink_old_image_reached:
  assumes "dirname \<noteq> None \<or> file = None \<or> imageName car = None"
  shows "unlink_old_image dirname file car w = Inr (old_image_unlinking file car w)"
  using assms
  by (auto simp: unlink_old_image_def old_image_unlinking_def image_path_def
      split: option.splits)

lemma unlink_old_image_unbound:
  assumes "file \<noteq> None" and "imageName car = Some n" and "n \<noteq> []"
  shows "unlink_old_image None file car w = Inl ReferenceError"
  using assms by (simp add: unlink_old_image_def image_path_def)

lemma unlink_image_reached:
  assumes "dirname \<noteq> None \<or> imageName car = None"
  shows "unlink_image dirname car w = Inr (image_unlinking car w)"
  using assms
  by (auto simp: unlink_image_def image_unlinking_def image_path_def split: option.splits)

lemma unlink_image_unbound:
  assumes "imageName car = Some n" and "n \<noteq> []"
  shows "unlink_image None car w = Inl ReferenceError"
  using assms by (simp add: unlink_image_def image_path_def)

lemma put_update_found:
  assumes "\<not> isNaN (JStr i)" and "parseInt (JStr i) = Dec n 0"
    and "find (has_id n) (cars w) = Some car"
    and "dirname \<noteq> None \<or> file = None \<or> imageName car = None"
  shows "put_update dirname i b file w =
     (case prisma_update (Dec n 0) (updatedData b file car)
             (old_image_unlinking file car (w\<lparr>calls := calls w @ [FindUnique (Dec n 0)]\<rparr>)) of
        (Inl e, w3) \<Rightarrow> (Thrown e, w3)
      | (Inr updatedCar, w3) \<Rightarrow> (Sent (Json updatedCar), w3))"
  using assms(1-3)
  by (simp add: put_update_def findUnique_integer unlink_old_image_reached [OF assms(4)])

lemma put_update_unbound:
  assumes "\<not> isNaN (JStr i)" and "parseInt (JStr i) = Dec n 0"
    and "find (has_id n) (cars w) = Some car"
    and "file \<noteq> None" and "imageName car = Some f" and "f \<noteq> []"
  shows "put_update None i b file w =
     (Thrown ReferenceError, w\<lparr>calls := calls w @ [FindUnique (Dec n 0)]\<rparr>)"
  using assms(1-3)
  by (simp add: put_update_def findUnique_integer unlink_old_image_unbound [OF assms(4-6)])

lemma old_image_unlinking_cars [simp]: "cars (old_image_unlinking file car w) = cars w"
  by (simp add: old_image_unlinking_def fs_unlink_def split: option.splits)

lemma prisma_update_found:
  assumes "find (has_id n) (cars w) = Some car"
  shows "prisma_update (Dec n 0) d w =
     (case row_of n d of
        None \<Rightarrow> (Inl PrismaValidationError, w\<lparr>calls := calls w @ [Update (Dec n 0) d]\<rparr>)
      | Some c \<Rightarrow>
          (Inr c, w\<lparr>cars := map (\<lambda>r. if has_id n r then c else r) (cars w),
                     calls := calls w @ [Update (Dec n 0) d]\<rparr>))"
  using find_list_ex [OF assms] by (simp add: prisma_update_def split: option.splits)

lemma delete_delete_found:
  assumes "\<not> isNaN (JStr i)" and "parseInt (JStr i) = Dec n 0"
    and "find (has_id n) (cars w) = Some car"
    and "dirname \<noteq> None \<or> imageName car = None"
  shows "delete_delete dirname i w =
     (Sent (Text 200 ''Car deleted successfully.''),
      image_unlinking car
        (w\<lparr>cars := filter (\<lambda>r. \<not> has_id n r) (cars w),
           calls := calls w @ [FindUnique (Dec n 0), Delete (Dec n 0)]\<rparr>))"
  using assms(1-3)
  by (simp add: delete_delete_def findUnique_integer prisma_delete_def
      unlink_image_reached [OF assms(4)])

lemma delete_delete_unbound:
  assumes "\<not> isNaN (JStr i)" and "parseInt (JStr i) = Dec n 0"
    and "find (has_id n) (cars w) = Some car"
    and "imageName car = Some f" and "f \<noteq> []"
  shows "delete_delete None i w =
     (Thrown ReferenceError,
      w\<lparr>cars := filter (\<lambda>r. \<not> has_id n r) (cars w),
         calls := calls w @ [FindUnique (Dec n 0), Delete (Dec n 0)]\<rparr>)"
  using assms(1-3)
  by (simp add: delete_delete_def findUnique_integer prisma_delete_def
      unlink_image_unbound [OF assms(4,5)])

lemma delete_delete_missing:
  assumes "\<not> isNaN (JStr i)" and "parseInt (JStr i) = Dec n 0"
    and "find (has_id n) (cars w) = None"
  shows "delete_delete dirname i w =
     (Sent (Text 404 ''Car not found.''), w\<lparr>calls := calls w @ [FindUnique (Dec n 0)]\<rparr>)"
  using assms by (simp add: delete_delete_def findUnique_integer)

section \<open>Completing the unlinks\<close>

lemma fold_run_unlink_cars: "cars (fold (run_unlink refused) us w) = cars w"
  by (induction us arbitrary: w) (auto split: if_splits)

lemma settle_cars: "cars (settle refused w) = cars w"
  by (simp add: settle_def fold_run_unlink_cars)

lemma settle_single:
  assumes "unlinks w = [(f, msg)]"
  shows "images (settle refused w) =
           (if f \<in> set (images w) \<and> \<not> refused f then removeAll f (images w) else images w)"
    and "console (settle refused w) =
           (if f \<in> set (images w) \<and> \<not> refused f then console w else console w @ [msg])"
    and "unlinks (settle refused w) = []"
  using assms by (simp_all add: settle_def)

section \<open>What PUT /update/:id does to an existing car\<close>

lemma old_image_unlinking_fields [simp]:
  "images (old_image_unlinking file car w) = images w"
  "console (old_image_unlinking file car w) = console w"
  "unlinks (old_image_unlinking file car w) =
     (case imageName car of
        None \<Rightarrow> unlinks w
      | Some f \<Rightarrow>
          if file \<noteq> None \<and> f \<noteq> [] then unlinks w @ [(f, ''Failed to delete old image:'')]
          else unlinks w)"
  "calls (old_image_unlinking file car w) =
     (case imageName car of
        None \<Rightarrow> calls w
      | Some f \<Rightarrow> if file \<noteq> None \<and> f \<noteq> [] then calls w @ [Unlink f] else calls w)"
  by (simp_all add: old_image_unlinking_def fs_unlink_def split: option.splits)

lemma prisma_update_fields:
  assumes "find (has_id n) (cars w) = Some car"
  shows "fst (prisma_update (Dec n 0) d w) =
           (case row_of n d of None \<Rightarrow> Inl PrismaValidationError | Some c \<Rightarrow> Inr c)"
    and "cars (snd (prisma_update (Dec n 0) d w)) =
           (case row_of n d of
              None \<Rightarrow> cars w
            | Some c \<Rightarrow> map (\<lambda>r. if has_id n r then c else r) (cars w))"
    and "calls (snd (prisma_update (Dec n 0) d w)) = calls w @ [Update (Dec n 0) d]"
    and "images (snd (prisma_update (Dec n 0) d w)) = images w"
    and "console (snd (prisma_update (Dec n 0) d w)) = console w"
    and "unlinks (snd (prisma_update (Dec n 0) d w)) = unlinks w"
  by (simp_all add: prisma_update_found [OF assms] split: option.splits)

lemma put_update_fields:
  assumes "\<not> isNaN (JStr i)" and "parseInt (JStr i) = Dec n 0"
    and "find (has_id n) (cars w) = Some car"
    and "dirname \<noteq> None \<or> file = None \<or> imageName car = None"
  shows "fst (put_update dirname i b file w) =
           (case row_of n (updatedData b file car) of
              None \<Rightarrow> Thrown PrismaValidationError
            | Some c \<Rightarrow> Sent (Json c))"
    and "cars (snd (put_update dirname i b file w)) =
           (case row_of n (updatedData b file car) of
              None \<Rightarrow> cars w
            | Some c \<Rightarrow> map (\<lambda>r. if has_id n r then c else r) (cars w))"
    and "calls (snd (put_update dirname i b file w)) =
           calls w @ [FindUnique (Dec n 0)] @
           (case imageName car of
              None \<Rightarrow> []
            | Some f \<Rightarrow> if file \<noteq> None \<and> f \<noteq> [] then [Unlink f] else []) @
           [Update (Dec n 0) (updatedData b file car)]"
    and "images (snd (put_update dirname i b file w)) = images w"
    and "console (snd (put_update dirname i b file w)) = console w"
    and "unlinks (snd (put_update dirname i b file w)) =
           (case imageName car of
              None \<Rightarrow> unlinks w
            | Some f \<Rightarrow>
                if file \<noteq> None \<and> f \<noteq> [] then unlinks w @ [(f, ''Failed to delete old image:'')]
                else unlinks w)"
proof -
  let ?w1 = "old_image_unlinking file car (w\<lparr>calls := calls w @ [FindUnique (Dec n 0)]\<rparr>)"
  let ?r = "prisma_update (Dec n 0) (updatedData b file car) ?w1"
  have found: "find (has_id n) (cars ?w1) = Some car"
    using assms(3) by simp
  have put: "put_update dirname i b file w =
      (case fst ?r of Inl e \<Rightarrow> Thrown e | Inr u \<Rightarrow> Sent (Json u), snd ?r)"
    by (simp add: put_update_found [OF assms] split: prod.splits sum.splits)
  show "fst (put_update dirname i b file w) =
           (case row_of n (updatedData b file car) of
              None \<Rightarrow> Thrown PrismaValidationError
            | Some c \<Rightarrow> Sent (Json c))"
    by (simp add: put prisma_update_fields(1) [OF found] split: option.splits)
  show "cars (snd (put_update dirname i b file w)) =
           (case row_of n (updatedData b file car) of
              None \<Rightarrow> cars w
            | Some c \<Rightarrow> map (\<lambda>r. if has_id n r then c else r) (cars w))"
    by (simp add: put prisma_update_fields(2) [OF found] split: option.splits)
  show "calls (snd (put_update dirname i b file w)) =
           calls w @ [FindUnique (Dec n 0)] @
           (case imageName car of
              None \<Rightarrow> []
            | Some f \<Rightarrow> if file \<noteq> None \<and> f \<noteq> [] then [Unlink f] else []) @
           [Update (Dec n 0) (updatedData b file car)]"
    by (simp add: put prisma_update_fields(3) [OF found] split: option.splits)
  show "images (snd (put_update dirname i b file w)) = images w"
    by (simp add: put prisma_update_fields(4) [OF found])
  show "console (snd (put_update dirname i b file w)) = console w"
    by (simp add: put prisma_update_fields(5) [OF found])
  show "unlinks (snd (put_update dirname i b file w)) =
           (case imageName car of
              None \<Rightarrow> unlinks w
            | Some f \<Rightarrow>
                if file \<noteq> None \<and> f \<noteq> [] then unlinks w @ [(f, ''Failed to delete old image:'')]
                else unlinks w)"
    by (simp add: put prisma_update_fields(6) [OF found] split: option.splits)
qed

lemma row_of_updatedData:
  assumes "row_of n (updatedData b file car) = Some c"
  shows "car_id c = n"
    and "data_name (updatedData b file car) = JStr (name c)"
    and "data_brand (updatedData b file car) = JStr (brand c)"
    and "data_model (updatedData b file car) = JStr (model c)"
    and "integer_of (data_year (updatedData b file car)) = Some (year c)"
    and "data_price (updatedData b file car) = price c"
    and "data_description (updatedData b file car) = JStr (description c)"
    and "data_imageName (updatedData b file car) = imageName c"
  using assms
  by (auto simp: row_of_def string_of_def split: option.splits if_splits jsval.splits)

lemma updatedData_fields:
  "data_name (updatedData b file car) =
     (if truthy (field b ''name'') then field b ''name'' else JStr (name car))"
  "data_brand (updatedData b file car) =
     (if truthy (field b ''brand'') then field b ''brand'' else JStr (brand car))"
  "data_model (updatedData b file car) =
     (if truthy (field b ''model'') then field b ''model'' else JStr (model car))"
  "data_year (updatedData b file car) =
     (if truthy (field b ''year'') then parseInt (field b ''year'') else Dec (year car) 0)"
  "data_description (updatedData b file car) =
     (if truthy (field b ''description'') then field b ''description''
      else JStr (description car))"
  "data_price (updatedData b file car) =
     (if truthy (field b ''price'') then parseFloat (field b ''price'') else price car)"
  "data_imageName (updatedData b file car) =
     (case file of Some f \<Rightarrow> Some f | None \<Rightarrow> imageName car)"
  by (simp_all add: updatedData_def Let_def)

lemma parseInt_integer: "parseInt v = NaN \<or> (\<exists>k. parseInt v = Dec k 0)"
  by (simp add: parseInt_def parseInt_str_def parseInt_digits_def
      split: prod.splits list.splits)

section \<open>What POST /create and DELETE /delete/:id do\<close>


lemma create_data_fields:
  "data_name (create_data b file) = field b ''name''"
  "data_brand (create_data b file) = field b ''brand''"
  "data_model (create_data b file) = field b ''model''"
  "data_year (create_data b file) = parseInt (field b ''year'')"
  "data_description (create_data b file) =
     (if truthy (field b ''description'') then field b ''description'' else JStr [])"
  "data_price (create_data b file) = parseFloat (field b ''price'')"
  "data_imageName (create_data b file) = file"
  by (simp_all add: create_data_def Let_def)


lemma post_create_Json:
  assumes "post_create b file w = (Sent (Json car), w')"
  shows "row_of (new_id (cars w)) (create_data b file) = Some car"
    and "w' = w\<lparr>cars := cars w @ [car], calls := calls w @ [Create (create_data b file)]\<rparr>"
  using assms
  by (auto simp: post_create_def prisma_create_def Let_def split: if_splits option.splits)

lemma image_unlinking_fields [simp]:
  "cars (image_unlinking car w) = cars w"
  "images (image_unlinking car w) = images w"
  "console (image_unlinking car w) = console w"
  "unlinks (image_unlinking car w) =
     (case imageName car of
        None \<Rightarrow> unlinks w
      | Some f \<Rightarrow> if f \<noteq> [] then unlinks w @ [(f, ''Failed to delete image:'')] else unlinks w)"
  by (simp_all add: image_unlinking_def fs_unlink_def split: option.splits)

section \<open>Image names are never empty\<close>

text \<open>
  The names multer generates are not empty, and no handler stores another name: when
  no record names the empty string, none does after a request.
\<close>

lemma uniqueFilename_nonempty: "uniqueFilename now r originalname \<noteq> []"
  by (simp add: uniqueFilename_def Let_def)

lemma row_of_imageName: "row_of n d = Some c \<Longrightarrow> imageName c = data_imageName d"
  by (auto simp: row_of_def split: option.splits if_splits)

lemma post_create_image_names:
  assumes "image_names_ok w" and "file \<noteq> Some []"
  shows "image_names_ok (snd (post_create b file w))"
proof (cases "fst (post_create b file w)")
  case (Sent r)
  show ?thesis
  proof (cases r)
    case (Json car)
    with Sent have c: "post_create b file w = (Sent (Json car), snd (post_create b file w))"
      by (metis prod.collapse)
    note j = post_create_Json [OF c]
    have "imageName car = file"
      using row_of_imageName [OF j(1)] by (simp add: create_data_fields)
    with assms j(2) show ?thesis
      by (simp add: image_names_ok_def)
  next
    case (JsonArray cs)
    with Sent show ?thesis
      by (auto simp: post_create_def prisma_create_def Let_def
          split: if_splits option.splits)
  next
    case (Text n msg)
    with Sent assms(1) show ?thesis
      by (auto simp: post_create_def prisma_create_def Let_def image_names_ok_def
          split: if_splits option.splits)
  qed
next
  case (Thrown e)
  with assms(1) show ?thesis
    by (auto simp: post_create_def prisma_create_def Let_def image_names_ok_def
        split: if_splits option.splits)
qed

lemma find_list_all: "find P xs = Some x \<Longrightarrow> list_all Q xs \<Longrightarrow> Q x"
  by (induction xs) (auto split: if_splits)

lemma put_update_image_names:
  assumes "image_names_ok w" and "file \<noteq> Some []"
  shows "image_names_ok (snd (put_update dirname i b file w))"
proof (cases "isNaN (JStr i)")
  case True
  with assms(1) show ?thesis by (simp add: put_update_def)
next
  case False
  from parseInt_integer [of "JStr i"] show ?thesis
  proof
    assume "parseInt (JStr i) = NaN"
    with False assms(1) show ?thesis
      by (simp add: put_update_def prisma_findUnique_def image_names_ok_def)
  next
    assume "\<exists>k. parseInt (JStr i) = Dec k 0"
    then obtain k where k: "parseInt (JStr i) = Dec k 0" ..
    show ?thesis
    proof (cases "find (has_id k) (cars w)")
      case None
      with False k assms(1) show ?thesis
        by (simp add: put_update_def findUnique_integer image_names_ok_def)
    next
      case (Some car)
      have named: "imageName car \<noteq> Some []"
        using find_list_all [OF Some, of "\<lambda>c. imageName c \<noteq> Some []"] assms(1)
        by (simp add: image_names_ok_def)
      show ?thesis
      proof (cases "dirname \<noteq> None \<or> file = None \<or> imageName car = None")
        case True
        from named assms(2) have "data_imageName (updatedData b file car) \<noteq> Some []"
          by (auto simp: updatedData_fields split: option.splits)
        then have "imageName c \<noteq> Some []"
          if "row_of k (updatedData b file car) = Some c" for c
          using row_of_imageName [OF that] by simp
        with assms(1) show ?thesis
          by (auto simp: image_names_ok_def put_update_fields(2) [OF False k Some True]
              list_all_iff split: option.splits)
      next
        case unbound: False
        then obtain f where "dirname = None" "file \<noteq> None" "imageName car = Some f"
          by auto
        with named assms(1) show ?thesis
          by (simp add: put_update_unbound [OF False k Some] image_names_ok_def)
      qed
    qed
  qed
qed

lemma delete_delete_image_names:
  assumes "image_names_ok w"
  shows "image_names_ok (snd (delete_delete dirname i w))"
  using assms
  by (auto simp: delete_delete_def prisma_findUnique_def prisma_delete_def
      image_names_ok_def list_all_iff unlink_image_def image_path_def fs_unlink_def
      split: option.splits sum.splits prod.splits if_splits)

lemma found_image_name:
  "image_names_ok w \<Longrightarrow> find (has_id n) (cars w) = Some car \<Longrightarrow> imageName car \<noteq> Some []"
  using find_list_all [of "has_id n" "cars w" car "\<lambda>c. imageName c \<noteq> Some []"]
  by (simp add: image_names_ok_def)

section \<open>C1: the merge of PUT /update/:id\<close>

text \<open>
  C1, as stated, fails on a form field: the string "0" is truthy, so a PUT with the
  form field year=0 on the Model S of 2023 sets its year to 0; the stored year is not
  kept.
\<close>

theorem update_year_zero_string_counterexample:
  "find (has_id 1) (cars garage) = Some tesla \<and> year tesla = 2023 \<and>
   fst (put_update None ''1'' [''year'' \<mapsto> JStr ''0''] None garage) =
     Sent (Json (tesla\<lparr>year := 0\<rparr>)) \<and>
   cars (snd (put_update None ''1'' [''year'' \<mapsto> JStr ''0''] None garage)) =
     [tesla\<lparr>year := 0\<rparr>]"
  by (simp add: js_defs store_defs router_defs garage_def tesla_def)

text \<open>
  C1, amended. For PUT /update/:id on an existing car, a field that is omitted or falsy
  in the input (undefined, null, false, the empty string, the number 0, NaN) keeps its
  stored value, and a truthy field replaces it, year through parseInt and price through
  parseFloat. So a JSON number 0 for year or price counts as not provided, while the
  form-field string "0" is truthy and sets the field to 0. When the store accepts the
  merged data, the merged record is persisted and returned; when it does not, its
  error is thrown and the record stays as it was. (This is for an update that has no
  old image file to remove, or runs where \<open>__dirname\<close> is bound; the other case is
  that of C5.)
\<close>

theorem update_merges_fields:
  assumes "\<not> isNaN (JStr i)" and "parseInt (JStr i) = Dec n 0"
    and "find (has_id n) (cars w) = Some car"
    and "dirname \<noteq> None \<or> file = None \<or> imageName car = None"
  shows "(\<forall>c. row_of n (updatedData b file car) = Some c \<longrightarrow>
            fst (put_update dirname i b file w) = Sent (Json c) \<and>
            find (has_id n) (cars (snd (put_update dirname i b file w))) = Some c \<and>
            car_id c = car_id car \<and>
            JStr (name c) = (if truthy (field b ''name'') then field b ''name''
                             else JStr (name car)) \<and>
            JStr (brand c) = (if truthy (field b ''brand'') then field b ''brand''
                              else JStr (brand car)) \<and>
            JStr (model c) = (if truthy (field b ''model'') then field b ''model''
                              else JStr (model car)) \<and>
            Dec (year c) 0 = (if truthy (field b ''year'') then parseInt (field b ''year'')
                              else Dec (year car) 0) \<and>
            price c = (if truthy (field b ''price'') then parseFloat (field b ''price'')
                       else price car) \<and>
            JStr (description c) =
              (if truthy (field b ''description'') then field b ''description''
               else JStr (description car)) \<and>
            imageName c = (case file of Some f \<Rightarrow> Some f | None \<Rightarrow> imageName car) \<and>
            (field b ''year'' = JNum (Dec 0 0) \<longrightarrow> year c = year car) \<and>
            (field b ''price'' = JNum (Dec 0 0) \<longrightarrow> price c = price car) \<and>
            (field b ''year'' = JStr ''0'' \<longrightarrow> year c = 0) \<and>
            (field b ''price'' = JStr ''0'' \<longrightarrow> price c = Dec 0 0)) \<and>
         (row_of n (updatedData b file car) = None \<longrightarrow>
            fst (put_update dirname i b file w) = Thrown PrismaValidationError \<and>
            cars (snd (put_update dirname i b file w)) = cars w)"
proof (intro conjI allI impI)
  fix c
  assume row: "row_of n (updatedData b file car) = Some c"
  note d = row_of_updatedData [OF row]
  have id_car: "car_id car = n"
    using find_has_id [OF assms(3)] by simp
  show "fst (put_update dirname i b file w) = Sent (Json c)"
    by (simp add: put_update_fields(1) [OF assms] row)
  show "find (has_id n) (cars (snd (put_update dirname i b file w))) = Some c"
    by (simp add: put_update_fields(2) [OF assms] row find_replaced [OF assms(3) d(1)])
  show "car_id c = car_id car"
    by (simp add: d(1) id_car)
  show "JStr (name c) = (if truthy (field b ''name'') then field b ''name''
                         else JStr (name car))"
    using d(2) by (auto simp: updatedData_fields)
  show "JStr (brand c) = (if truthy (field b ''brand'') then field b ''brand''
                          else JStr (brand car))"
    using d(3) by (auto simp: updatedData_fields)
  show "JStr (model c) = (if truthy (field b ''model'') then field b ''model''
                          else JStr (model car))"
    using d(4) by (auto simp: updatedData_fields)
  have int_year: "parseInt v = Dec (year c) 0" if "integer_of (parseInt v) = Some (year c)" for v
    using that parseInt_integer [of v] by auto
  show year_c: "Dec (year c) 0 = (if truthy (field b ''year'') then parseInt (field b ''year'')
                          else Dec (year car) 0)"
    using d(5) int_year [of "field b ''year''"] by (auto simp: updatedData_fields)
  show price_c: "price c = (if truthy (field b ''price'') then parseFloat (field b ''price'')
                   else price car)"
    using d(6) by (auto simp: updatedData_fields)
  show "JStr (description c) =
          (if truthy (field b ''description'') then field b ''description''
           else JStr (description car))"
    using d(7) by (auto simp: updatedData_fields)
  show "imageName c = (case file of Some f \<Rightarrow> Some f | None \<Rightarrow> imageName car)"
    using d(8) by (auto simp: updatedData_fields)
  show "year c = year car" if "field b ''year'' = JNum (Dec 0 0)"
    using year_c that by simp
  show "price c = price car" if "field b ''price'' = JNum (Dec 0 0)"
    using price_c that by simp
  show "year c = 0" if "field b ''year'' = JStr ''0''"
  proof -
    have "parseInt (JStr ''0'') = Dec 0 0"
      by (simp add: js_defs)
    with year_c that show ?thesis by simp
  qed
  show "price c = Dec 0 0" if "field b ''price'' = JStr ''0''"
  proof -
    have "parseFloat (JStr ''0'') = Dec 0 0"
      by (simp add: js_defs)
    with price_c that show ?thesis by simp
  qed
next
  assume "row_of n (updatedData b file car) = None"
  then show "fst (put_update dirname i b file w) = Thrown PrismaValidationError"
    and "cars (snd (put_update dirname i b file w)) = cars w"
    by (simp_all add: put_update_fields(1,2) [OF assms])
qed

theorem update_merges_fields_witness:
  "\<not> isNaN (JStr ''1'') \<and> parseInt (JStr ''1'') = Dec 1 0 \<and>
   find (has_id 1) (cars garage) = Some tesla \<and>
   row_of 1 (updatedData [''year'' \<mapsto> JNum (Dec 0 0), ''price'' \<mapsto> JStr ''0''] None tesla) =
     Some (tesla\<lparr>price := Dec 0 0\<rparr>) \<and>
   fst (put_update None ''1'' [''year'' \<mapsto> JNum (Dec 0 0), ''price'' \<mapsto> JStr ''0''] None garage) =
     Sent (Json (tesla\<lparr>price := Dec 0 0\<rparr>)) \<and>
   find (has_id 1)
     (cars (snd (put_update None ''1'' [''year'' \<mapsto> JNum (Dec 0 0), ''price'' \<mapsto> JStr ''0'']
        None garage))) = Some (tesla\<lparr>price := Dec 0 0\<rparr>) \<and>
   row_of 1 (updatedData [''year'' \<mapsto> JStr ''abc''] None tesla) = None \<and>
   fst (put_update None ''1'' [''year'' \<mapsto> JStr ''abc''] None garage) = Thrown PrismaValidationError"
proof -
  have v: "\<not> isNaN (JStr ''1'')" "parseInt (JStr ''1'') = Dec 1 0"
    by (simp_all add: js_defs)
  have f: "find (has_id 1) (cars garage) = Some tesla"
    by (simp add: garage_def tesla_def has_id_def)
  have r: "row_of 1 (updatedData [''year'' \<mapsto> JNum (Dec 0 0), ''price'' \<mapsto> JStr ''0''] None tesla) =
      Some (tesla\<lparr>price := Dec 0 0\<rparr>)"
    by (simp add: js_defs store_defs router_defs tesla_def)
  have r': "row_of 1 (updatedData [''year'' \<mapsto> JStr ''abc''] None tesla) = None"
    by (simp add: js_defs store_defs router_defs tesla_def)
  have u: "(None :: string option) \<noteq> None \<or> (None :: string option) = None \<or>
      imageName tesla = None"
    by simp
  show ?thesis
    using update_merges_fields [OF v f u, of "[''year'' \<mapsto> JNum (Dec 0 0), ''price'' \<mapsto> JStr ''0'']"]
      update_merges_fields [OF v f u, of "[''year'' \<mapsto> JStr ''abc'']"] v f r r'
    by simp
qed

section \<open>C2: the id check\<close>




section \<open>C3: a required field is missing on create\<close>



section \<open>C4: DELETE /delete/:id\<close>

text \<open>
  What the handler is written to do, and does where \<open>__dirname\<close> is bound. With a valid
  numeric id: when no car has that id the response is 404 "Car not found." and nothing
  is deleted (only the lookup was made). Otherwise the record is removed from the store
  for good, the response is 200 with the plain text "Car deleted successfully.", and
  when the record had an imageName the unlink of that file is started and left pending.
  Whatever the unlink does later, the response stands and the record stays deleted: the
  file is removed, or the failure is logged as "Failed to delete image:" on the console
  and nowhere else. (The state is one in which no record names the empty string as its
  image; the router keeps it so, see \<open>image_names_ok\<close>.)
\<close>

lemma delete_car_where_dirname_is_bound:
  assumes "\<not> isNaN (JStr i)" and "parseInt (JStr i) = Dec n 0" and "image_names_ok w"
  shows "(find (has_id n) (cars w) = None \<longrightarrow>
            delete_delete (Some dir) i w =
              (Sent (Text 404 ''Car not found.''),
               w\<lparr>calls := calls w @ [FindUnique (Dec n 0)]\<rparr>)) \<and>
         (\<forall>car. find (has_id n) (cars w) = Some car \<longrightarrow>
            fst (delete_delete (Some dir) i w) = Sent (Text 200 ''Car deleted successfully.'') \<and>
            cars (snd (delete_delete (Some dir) i w)) = filter (\<lambda>r. \<not> has_id n r) (cars w) \<and>
            find (has_id n) (cars (snd (delete_delete (Some dir) i w))) = None \<and>
            images (snd (delete_delete (Some dir) i w)) = images w \<and>
            console (snd (delete_delete (Some dir) i w)) = console w \<and>
            unlinks (snd (delete_delete (Some dir) i w)) =
              (case imageName car of
                 None \<Rightarrow> unlinks w
               | Some f \<Rightarrow> unlinks w @ [(f, ''Failed to delete image:'')]) \<and>
            (\<forall>refused.
               find (has_id n) (cars (settle refused (snd (delete_delete (Some dir) i w)))) = None \<and>
               (\<forall>f. imageName car = Some f \<and> unlinks w = [] \<longrightarrow>
                  images (settle refused (snd (delete_delete (Some dir) i w))) =
                    (if f \<in> set (images w) \<and> \<not> refused f then removeAll f (images w)
                     else images w) \<and>
                  console (settle refused (snd (delete_delete (Some dir) i w))) =
                    (if f \<in> set (images w) \<and> \<not> refused f then console w
                     else console w @ [''Failed to delete image:'']))))"
proof (intro conjI allI impI)
  assume "find (has_id n) (cars w) = None"
  then show "delete_delete (Some dir) i w =
      (Sent (Text 404 ''Car not found.''), w\<lparr>calls := calls w @ [FindUnique (Dec n 0)]\<rparr>)"
    by (rule delete_delete_missing [OF assms(1,2)])
next
  fix car
  assume found: "find (has_id n) (cars w) = Some car"
  have named: "imageName car \<noteq> Some []"
    using assms(3) found by (rule found_image_name)
  note del = delete_delete_found [OF assms(1,2) found, of "Some dir"]
  show "fst (delete_delete (Some dir) i w) = Sent (Text 200 ''Car deleted successfully.'')"
    by (simp add: del)
  show rows: "cars (snd (delete_delete (Some dir) i w)) = filter (\<lambda>r. \<not> has_id n r) (cars w)"
    by (simp add: del)
  show "find (has_id n) (cars (snd (delete_delete (Some dir) i w))) = None"
    by (simp add: rows find_removed)
  show files: "images (snd (delete_delete (Some dir) i w)) = images w"
    by (simp add: del)
  show log: "console (snd (delete_delete (Some dir) i w)) = console w"
    by (simp add: del)
  show pending: "unlinks (snd (delete_delete (Some dir) i w)) =
      (case imageName car of
         None \<Rightarrow> unlinks w
       | Some f \<Rightarrow> unlinks w @ [(f, ''Failed to delete image:'')])"
    using named by (simp add: del split: option.splits)
  fix refused
  show "find (has_id n) (cars (settle refused (snd (delete_delete (Some dir) i w)))) = None"
    by (simp add: settle_cars rows find_removed)
  fix f
  assume "imageName car = Some f \<and> unlinks w = []"
  then have one: "unlinks (snd (delete_delete (Some dir) i w)) = [(f, ''Failed to delete image:'')]"
    by (simp add: pending)
  show "images (settle refused (snd (delete_delete (Some dir) i w))) =
      (if f \<in> set (images w) \<and> \<not> refused f then removeAll f (images w) else images w)"
    by (simp add: settle_single(1) [OF one] files)
  show "console (settle refused (snd (delete_delete (Some dir) i w))) =
      (if f \<in> set (images w) \<and> \<not> refused f then console w
       else console w @ [''Failed to delete image:''])"
    by (simp add: settle_single(2) [OF one] files log)
qed

text \<open>
  C4 fails on the router as it is written, an ES module with no \<open>__dirname\<close>: DELETE
  /delete/1 on the Model S, which has an image, removes the record and then throws a
  ReferenceError where the path of the image is built. No unlink is started, nothing is
  logged and no 200 is sent: the error leaves the handler.
\<close>

theorem delete_car_with_image_throws:
  "\<not> isNaN (JStr ''1'') \<and> find (has_id 1) (cars garage) = Some tesla \<and>
   imageName tesla = Some ''17-42.png'' \<and>
   delete_delete None ''1'' garage =
     (Thrown ReferenceError,
      garage\<lparr>cars := [], calls := [FindUnique (Dec 1 0), Delete (Dec 1 0)]\<rparr>) \<and>
   unlinks (snd (delete_delete None ''1'' garage)) = [] \<and>
   images (snd (delete_delete None ''1'' garage)) = [''17-42.png'']"
  by (simp add: js_defs store_defs router_defs garage_def tesla_def)

section \<open>C5: the old image on update\<close>

text \<open>
  What the handler is written to do, and does where \<open>__dirname\<close> is bound. For PUT
  /update/:id on an existing car, the unlink of the old image file is started exactly
  when a new image was uploaded and the record had an imageName. It is fire and forget:
  when the handler is done the unlink is only pending, the Image Store and the console
  are as they were, and the response is already fixed. When the unlink completes later
  it removes the file or, on an error, logs "Failed to delete old image:"; the records
  are not touched by it. (The state is one in which no record names the empty string as
  its image; the router keeps it so, see \<open>image_names_ok\<close>.)
\<close>

lemma update_unlinks_old_image_where_dirname_is_bound:
  assumes "\<not> isNaN (JStr i)" and "parseInt (JStr i) = Dec n 0"
    and "find (has_id n) (cars w) = Some car"
    and "image_names_ok w"
  shows "unlinks (snd (put_update (Some dir) i b file w)) =
           (case imageName car of
              None \<Rightarrow> unlinks w
            | Some f \<Rightarrow>
                if file \<noteq> None then unlinks w @ [(f, ''Failed to delete old image:'')]
                else unlinks w) \<and>
         images (snd (put_update (Some dir) i b file w)) = images w \<and>
         console (snd (put_update (Some dir) i b file w)) = console w \<and>
         (\<forall>refused.
            cars (settle refused (snd (put_update (Some dir) i b file w))) =
              cars (snd (put_update (Some dir) i b file w)) \<and>
            (\<forall>f. file \<noteq> None \<and> imageName car = Some f \<and> unlinks w = [] \<longrightarrow>
               images (settle refused (snd (put_update (Some dir) i b file w))) =
                 (if f \<in> set (images w) \<and> \<not> refused f then removeAll f (images w)
                  else images w) \<and>
               console (settle refused (snd (put_update (Some dir) i b file w))) =
                 (if f \<in> set (images w) \<and> \<not> refused f then console w
                  else console w @ [''Failed to delete old image:''])))"
proof (intro conjI allI impI)
  have "Some dir \<noteq> None \<or> file = None \<or> imageName car = None"
    by simp
  note u = put_update_fields [OF assms(1-3) this, of b]
  show pending: "unlinks (snd (put_update (Some dir) i b file w)) =
           (case imageName car of
              None \<Rightarrow> unlinks w
            | Some f \<Rightarrow>
                if file \<noteq> None then unlinks w @ [(f, ''Failed to delete old image:'')]
                else unlinks w)"
    using found_image_name [OF assms(4,3)] by (simp add: u(6) split: option.splits)
  show "images (snd (put_update (Some dir) i b file w)) = images w"
    by (rule u(4))
  show "console (snd (put_update (Some dir) i b file w)) = console w"
    by (rule u(5))
  fix refused
  show "cars (settle refused (snd (put_update (Some dir) i b file w))) =
          cars (snd (put_update (Some dir) i b file w))"
    by (rule settle_cars)
  fix f
  assume a: "file \<noteq> None \<and> imageName car = Some f \<and> unlinks w = []"
  then have one: "unlinks (snd (put_update (Some dir) i b file w)) = [(f, ''Failed to delete old image:'')]"
    by (simp add: pending)
  show "images (settle refused (snd (put_update (Some dir) i b file w))) =
          (if f \<in> set (images w) \<and> \<not> refused f then removeAll f (images w)
           else images w)"
    by (simp add: settle_single(1) [OF one] u(4))
  show "console (settle refused (snd (put_update (Some dir) i b file w))) =
          (if f \<in> set (images w) \<and> \<not> refused f then console w
           else console w @ [''Failed to delete old image:''])"
    by (simp add: settle_single(2) [OF one] u(4,5))
qed

text \<open>
  C5 fails on the router as it is written, an ES module with no \<open>__dirname\<close>: a PUT
  /update/1 that uploads a new image for the Model S, which has an old one, throws a
  ReferenceError where the path of the old image is built. The unlink of the old file
  is never started; the handler does not get to the store's update either.
\<close>

theorem update_with_new_image_throws:
  "\<not> isNaN (JStr ''1'') \<and> find (has_id 1) (cars garage) = Some tesla \<and>
   imageName tesla = Some ''17-42.png'' \<and>
   put_update None ''1'' Map.empty (Some ''18-7.jpg'') garage =
     (Thrown ReferenceError, garage\<lparr>calls := [FindUnique (Dec 1 0)]\<rparr>) \<and>
   unlinks (snd (put_update None ''1'' Map.empty (Some ''18-7.jpg'') garage)) = [] \<and>
   images (settle (\<lambda>f. False)
     (snd (put_update None ''1'' Map.empty (Some ''18-7.jpg'') garage))) = [''17-42.png'']"
  by (simp add: js_defs store_defs router_defs garage_def tesla_def)

section \<open>C6: an update of the price only\<close>




section \<open>C7: the response of POST /create\<close>




section \<open>C8: reading back what was created\<close>



section \<open>C9: year and price that are not numeric strings\<close>




section \<open>C10: the unlink comes before the store update\<close>

text \<open>
  What the handler is written to do, and does where \<open>__dirname\<close> is bound. For PUT
  /update/:id on an existing car with a new image uploaded and an old imageName (in a
  state where no record names the empty string), the handler starts the unlink of the
  old image file before it calls the store's update. So when the store then refuses
  the update, the error is thrown, the record is unchanged and still names the old
  file, and the unlink that was started removes that file all the same: the update is
  not atomic across the Record Store and the Image Store.
\<close>

lemma update_unlink_before_store_where_dirname_is_bound:
  assumes "\<not> isNaN (JStr i)" and "parseInt (JStr i) = Dec n 0"
    and "find (has_id n) (cars w) = Some car"
    and "imageName car = Some f" and "image_names_ok w"
  shows "calls (snd (put_update (Some dir) i b (Some g) w)) =
           calls w @ [FindUnique (Dec n 0), Unlink f,
                      Update (Dec n 0) (updatedData b (Some g) car)] \<and>
         (row_of n (updatedData b (Some g) car) = None \<longrightarrow>
            fst (put_update (Some dir) i b (Some g) w) = Thrown PrismaValidationError \<and>
            (\<forall>refused.
               find (has_id n) (cars (settle refused (snd (put_update (Some dir) i b (Some g) w)))) =
                 Some car \<and>
               (unlinks w = [] \<and> f \<in> set (images w) \<and> \<not> refused f \<longrightarrow>
                  f \<notin> set (images (settle refused (snd (put_update (Some dir) i b (Some g) w)))))))"
proof (intro conjI allI impI)
  have "Some dir \<noteq> None \<or> Some g = None \<or> imageName car = None"
    by simp
  note u = put_update_fields [OF assms(1-3) this, of b]
  have f: "f \<noteq> []"
    using found_image_name [OF assms(5,3)] assms(4) by auto
  show "calls (snd (put_update (Some dir) i b (Some g) w)) =
          calls w @ [FindUnique (Dec n 0), Unlink f,
                     Update (Dec n 0) (updatedData b (Some g) car)]"
    using assms(4) f by (simp add: u(3))
  assume none: "row_of n (updatedData b (Some g) car) = None"
  show "fst (put_update (Some dir) i b (Some g) w) = Thrown PrismaValidationError"
    by (simp add: u(1) none)
  fix refused
  show "find (has_id n) (cars (settle refused (snd (put_update (Some dir) i b (Some g) w)))) = Some car"
    by (simp add: settle_cars u(2) none assms(3))
  assume a: "unlinks w = [] \<and> f \<in> set (images w) \<and> \<not> refused f"
  then have one: "unlinks (snd (put_update (Some dir) i b (Some g) w)) = [(f, ''Failed to delete old image:'')]"
    using assms(4) f by (simp add: u(6))
  show "f \<notin> set (images (settle refused (snd (put_update (Some dir) i b (Some g) w))))"
    using a by (simp add: settle_single(1) [OF one] u(4))
qed

text \<open>
  C10 fails on the router as it is written, an ES module with no \<open>__dirname\<close>: on a PUT
  /update/1 with a new image for the Model S, which has an old one, the only call the
  handler makes is the lookup. The ReferenceError of the path comes before the unlink
  and before the store's update: no unlink is started, so no file is removed ahead
  of a failed update, and no update is attempted.
\<close>

theorem update_stops_before_unlink:
  "\<not> isNaN (JStr ''1'') \<and> find (has_id 1) (cars garage) = Some tesla \<and>
   imageName tesla = Some ''17-42.png'' \<and>
   fst (put_update None ''1'' model3 (Some ''18-7.jpg'') garage) = Thrown ReferenceError \<and>
   calls (snd (put_update None ''1'' model3 (Some ''18-7.jpg'') garage)) =
     [FindUnique (Dec 1 0)] \<and>
   cars (snd (put_update None ''1'' model3 (Some ''18-7.jpg'') garage)) = cars garage \<and>
   images (settle (\<lambda>f. False)
     (snd (put_update None ''1'' model3 (Some ''18-7.jpg'') garage))) = images garage"
  by (simp add: js_defs store_defs router_defs garage_def tesla_def model3_def)


end
